theory Spec2Isabelle
  imports Main "HOL-Library.Multiset"
begin

section \<open>The rules engine of cthulhu\_game.py\<close>

text \<open>
  The module keeps its state in Python objects that are shared by reference: a
  \<open>Card\<close> is referenced from the deck, the discard or a hand and is flipped in place, a
  \<open>Player\<close> is referenced from the game's roster and is handed to the game's methods
  by the caller. The model therefore has two stores, one of Card objects and one of
  Player objects, both addressed by natural numbers, and the lists of the source hold
  addresses. A method that raises leaves behind whatever it wrote before, so a raise
  carries the world at the point of the raise.
\<close>

subsection \<open>Data\<close>

text \<open>
  \<open>GameError(message)\<close> is the module's only exception that is ever raised; the other
  constructors are the built-in exceptions the methods let escape: \<open>IndexError\<close>
  (\<open>list.pop\<close> on an empty list, an index out of range, \<open>random.choice\<close> on an empty
  list), \<open>AttributeError\<close> (an attribute that was never assigned, or an attribute of
  \<open>None\<close>) and \<open>ValueError\<close> (\<open>list.index\<close> of an absent element).
\<close>

datatype error = GameError string | IndexError | AttributeError | ValueError

text \<open>A Card: its title and its face. Description and symbol are display data only.\<close>

record card =
  title :: string
  is_flipped :: bool

text \<open>
  PlayerGameData. \<open>cards\<close> holds addresses of Card objects. A claim is a list of Card
  objects made for that claim alone, which nothing else references and nothing
  flips, so it is kept by value.
\<close>

record player_game_data =
  role :: string
  cards :: "nat list"
  can_claim :: bool
  claim :: "card list option"
  has_flashlight :: bool

text \<open>A Player: \<open>game_data\<close> is \<open>None\<close> until \<open>start_playing\<close>. The address is the identity.\<close>

record player =
  status :: string
  game_data :: "player_game_data option"

text \<open>
  The world: the two stores, the draws of the random generator still to come, the
  parsed rows of roles/role\_info.txt (number of players, investigators, cultists)
  and the attributes of the one Game. The attributes that \<open>__init__\<close> does not assign
  are \<open>None\<close> until a method assigns them.
\<close>

record world =
  pheap :: "nat \<Rightarrow> player"
  cheap :: "nat \<Rightarrow> card"
  cnext :: nat
  rnd :: "nat list"
  role_info :: "(nat \<times> int \<times> int) list"
  players :: "nat list"
  game_status :: string
  round_counter :: "nat option"
  phase :: "string option"
  turn :: "nat option"
  deck :: "nat list option"
  discard :: "nat list option"
  winner :: "string option"

text \<open>What a method call that comes back leaves: it returned, or it raised.\<close>

datatype outcome = Done world | Raised error world

fun world_of :: "outcome \<Rightarrow> world" where
  "world_of (Done w) = w"
| "world_of (Raised e w) = w"

fun is_done :: "outcome \<Rightarrow> bool" where
  "is_done (Done w) = True"
| "is_done (Raised e w) = False"

fun raised :: "outcome \<Rightarrow> error option" where
  "raised (Done w) = None"
| "raised (Raised e w) = Some e"

subsection \<open>Card\<close>

text \<open>
  Modelled from the spec: the card-metadata lookup. \<open>Card.__init__\<close> scans
  card\_information/card\_data.txt, which is not part of the sources, for the line of
  the kind asked for and takes the title from it; the title stays \<open>Null\<close> when no line
  matches. The three kinds the game builds resolve to a title equal to the kind
  token, the token \<open>check_winner\<close> compares titles with.
\<close>

definition card_title :: "string \<Rightarrow> string" where
  "card_title ctype =
     (if ctype = ''Cthulhu'' \<or> ctype = ''Elder Sign'' \<or> ctype = ''Blank'' then ctype
      else ''Null'')"

definition Card :: "string \<Rightarrow> card" where
  "Card ctype = \<lparr>title = card_title ctype, is_flipped = False\<rparr>"

definition flip_up :: "nat \<Rightarrow> world \<Rightarrow> world" where
  "flip_up c w = w\<lparr>cheap := (cheap w)(c := (cheap w c)\<lparr>is_flipped := True\<rparr>)\<rparr>"

subsection \<open>The random generator\<close>

text \<open>
  \<open>draw n\<close> is one call of the generator for a number below \<open>n\<close>: the next draw of the
  world, reduced into the range; a supply that has run out goes on with zeros.
  \<open>random.shuffle\<close> is the library's loop, which swaps position \<open>i\<close>, from the last
  down to 1, with a position drawn below \<open>i + 1\<close>.
\<close>

fun draw :: "nat \<Rightarrow> nat list \<Rightarrow> nat \<times> nat list" where
  "draw n [] = (0, [])"
| "draw n (r # rs) = (r mod n, rs)"

fun shuffle_loop :: "nat \<Rightarrow> 'a list \<Rightarrow> nat list \<Rightarrow> 'a list \<times> nat list" where
  "shuffle_loop 0 xs rs = (xs, rs)"
| "shuffle_loop (Suc i) xs rs =
     (case draw (Suc i + 1) rs of
        (j, rs') \<Rightarrow> shuffle_loop i (xs[Suc i := xs ! j, j := xs ! Suc i]) rs')"

definition shuffle :: "'a list \<Rightarrow> nat list \<Rightarrow> 'a list \<times> nat list" where
  "shuffle xs rs = shuffle_loop (length xs - 1) xs rs"

subsection \<open>Player\<close>

definition hand :: "world \<Rightarrow> nat \<Rightarrow> nat list" where
  "hand w p = (case game_data (pheap w p) of None \<Rightarrow> [] | Some gd \<Rightarrow> cards gd)"

definition holds_flashlight :: "world \<Rightarrow> nat \<Rightarrow> bool" where
  "holds_flashlight w p =
     (case game_data (pheap w p) of None \<Rightarrow> False | Some gd \<Rightarrow> has_flashlight gd)"

definition set_game_data :: "nat \<Rightarrow> player_game_data \<Rightarrow> world \<Rightarrow> world" where
  "set_game_data p gd w = w\<lparr>pheap := (pheap w)(p := (pheap w p)\<lparr>game_data := Some gd\<rparr>)\<rparr>"

definition start_playing :: "nat \<Rightarrow> string \<Rightarrow> world \<Rightarrow> world" where
  "start_playing p r w =
     w\<lparr>pheap := (pheap w)(p := \<lparr>status = ''Playing'',
          game_data = Some \<lparr>role = r, cards = [], can_claim = True, claim = None,
                            has_flashlight = False\<rparr>\<rparr>)\<rparr>"

definition give_card :: "nat \<Rightarrow> nat \<Rightarrow> world \<Rightarrow> outcome" where
  "give_card p c w =
     (case game_data (pheap w p) of
        None \<Rightarrow> Raised AttributeError w
      | Some gd \<Rightarrow> Done (set_game_data p (gd\<lparr>cards := cards gd @ [c]\<rparr>) w))"

definition player_set_claim :: "nat \<Rightarrow> card list \<Rightarrow> world \<Rightarrow> outcome" where
  "player_set_claim p cl w =
     (case game_data (pheap w p) of
        None \<Rightarrow> Raised AttributeError w
      | Some gd \<Rightarrow>
          if \<not> can_claim gd then Raised (GameError ''You cannot claim right now.'') w
          else Done (set_game_data p (gd\<lparr>claim := Some cl, can_claim := False\<rparr>) w))"

text \<open>
  A Python list index: a negative index counts from the end, anything outside
  raises \<open>IndexError\<close>.
\<close>

definition py_index :: "'a list \<Rightarrow> int \<Rightarrow> nat option" where
  "py_index xs i =
     (let n = int (length xs) in
      if 0 \<le> i \<and> i < n then Some (nat i)
      else if - n \<le> i \<and> i < 0 then Some (nat (n + i))
      else None)"

text \<open>The loop of \<open>reveal_card\<close>: the first card of the hand that is not flipped.\<close>

fun first_unflipped :: "(nat \<Rightarrow> card) \<Rightarrow> nat list \<Rightarrow> nat option" where
  "first_unflipped h [] = None"
| "first_unflipped h (c # cs) = (if \<not> is_flipped (h c) then Some c else first_unflipped h cs)"

text \<open>
  \<open>reveal_card(pos)\<close>. The test \<open>if pos:\<close> is false for \<open>None\<close> and for 0. In the
  positional branch the source raises when the card is not flipped and flips it
  (again) when it is.
\<close>

definition reveal_card :: "nat \<Rightarrow> int option \<Rightarrow> world \<Rightarrow> outcome" where
  "reveal_card p pos w =
     (case game_data (pheap w p) of
        None \<Rightarrow> Raised AttributeError w
      | Some gd \<Rightarrow>
          if pos \<noteq> None \<and> pos \<noteq> Some 0 then
            (case py_index (cards gd) (the pos) of
               None \<Rightarrow> Raised IndexError w
             | Some i \<Rightarrow>
                 if \<not> is_flipped (cheap w (cards gd ! i))
                 then Raised (GameError ''No card to flip!'') w
                 else Done (flip_up (cards gd ! i) w))
          else
            (case first_unflipped (cheap w) (cards gd) of
               Some c \<Rightarrow> Done (flip_up c w)
             | None \<Rightarrow> Raised (GameError ''All cards are faceup!'') w))"

definition toggle_flashlight :: "nat \<Rightarrow> world \<Rightarrow> outcome" where
  "toggle_flashlight p w =
     (case game_data (pheap w p) of
        None \<Rightarrow> Raised AttributeError w
      | Some gd \<Rightarrow> Done (set_game_data p (gd\<lparr>has_flashlight := \<not> has_flashlight gd\<rparr>) w))"

subsection \<open>Game: roster\<close>

text \<open>\<open>Game()\<close> with every Player object fresh, as \<open>Player(player_id)\<close> leaves it.\<close>

definition Game :: "(nat \<times> int \<times> int) list \<Rightarrow> nat list \<Rightarrow> world" where
  "Game ri rs =
     \<lparr>pheap = (\<lambda>p. \<lparr>status = ''Idle'', game_data = None\<rparr>),
      cheap = (\<lambda>c. Card ''Null''), cnext = 0, rnd = rs, role_info = ri,
      players = [], game_status = ''Unstarted'', round_counter = None, phase = None,
      turn = None, deck = None, discard = None, winner = None\<rparr>"

definition is_active :: "world \<Rightarrow> nat \<Rightarrow> bool" where
  "is_active w p = (status (pheap w p) = ''Playing'')"

definition count_active_players :: "world \<Rightarrow> nat" where
  "count_active_players w = length (filter (is_active w) (players w))"

definition get_active_players :: "world \<Rightarrow> nat list" where
  "get_active_players w = filter (is_active w) (players w)"

definition add_player :: "nat \<Rightarrow> bool \<Rightarrow> world \<Rightarrow> outcome" where
  "add_player p is_playing w =
     (if game_status w \<noteq> ''Unstarted'' \<and> is_playing
      then Raised (GameError ''The game has already started.'') w
      else if p \<in> set (players w) \<and> status (pheap w p) = ''Playing''
      then Raised (GameError ''You're already in this game.'') w
      else if p \<in> set (players w) \<and> status (pheap w p) = ''Spectating''
      then Raised (GameError ''You're already spectating this game.'') w
      else Done (w\<lparr>pheap := (pheap w)(p := (pheap w p)
                      \<lparr>status := (if is_playing then ''Playing'' else ''Spectating'')\<rparr>),
                   players := players w @ [p]\<rparr>))"

definition remove_player :: "nat \<Rightarrow> world \<Rightarrow> outcome" where
  "remove_player p w =
     (if p \<in> set (players w) then Done (w\<lparr>players := remove1 p (players w)\<rparr>)
      else Raised (GameError ''You weren't in the game.'') w)"

fun index_of :: "nat list \<Rightarrow> nat \<Rightarrow> nat option" where
  "index_of [] p = None"
| "index_of (x # xs) p = (if x = p then Some 0 else map_option Suc (index_of xs p))"

text \<open>
  \<open>get_next_player\<close>: \<open>while True\<close> walks round the roster from the player's place
  and comes back only at a player whose status is Playing.
\<close>

partial_function (option) next_player_loop :: "world \<Rightarrow> nat \<Rightarrow> (error + nat) option" where
  "next_player_loop w ind =
     (if (if ind + 1 = length (players w) then 0 else ind + 1) < length (players w) then
        (if is_active w (players w ! (if ind + 1 = length (players w) then 0 else ind + 1))
         then Some (Inr (players w ! (if ind + 1 = length (players w) then 0 else ind + 1)))
         else next_player_loop w (if ind + 1 = length (players w) then 0 else ind + 1))
      else Some (Inl IndexError))"

declare next_player_loop.simps [code]

definition get_next_player :: "world \<Rightarrow> nat \<Rightarrow> (error + nat) option" where
  "get_next_player w p =
     (case index_of (players w) p of
        None \<Rightarrow> Some (Inl ValueError)
      | Some i \<Rightarrow> next_player_loop w i)"

subsection \<open>Game: starting\<close>

text \<open>
  \<open>make_roles\<close> reads the table (the last row for the count wins, as the scan of the
  file has no \<open>break\<close>), raises when there is no row, and shuffles the roles. It writes
  nothing but the generator.
\<close>

fun find_roles :: "(nat \<times> int \<times> int) list \<Rightarrow> nat \<Rightarrow> (int \<times> int) option \<Rightarrow> (int \<times> int) option" where
  "find_roles [] n got = got"
| "find_roles ((k, ni, nc) # rows) n got = find_roles rows n (if k = n then Some (ni, nc) else got)"

definition make_roles :: "world \<Rightarrow> error + (string list \<times> world)" where
  "make_roles w =
     (case find_roles (role_info w) (count_active_players w) None of
        None \<Rightarrow> Inl (GameError ''Failed to find a role setup.'')
      | Some (ni, nc) \<Rightarrow>
          (case shuffle (replicate (nat ni) ''Investigator'' @ replicate (nat nc) ''Cultist'') (rnd w) of
             (roles, rs) \<Rightarrow> Inr (roles, w\<lparr>rnd := rs\<rparr>)))"

text \<open>The loop of \<open>start_game\<close> over \<open>enumerate(self.get_active_players())\<close>.\<close>

fun assign_roles :: "string list \<Rightarrow> nat \<Rightarrow> nat list \<Rightarrow> world \<Rightarrow> outcome" where
  "assign_roles roles i [] w = Done w"
| "assign_roles roles i (p # ps) w =
     (if i < length roles then assign_roles roles (Suc i) ps (start_playing p (roles ! i) w)
      else Raised IndexError w)"

text \<open>\<open>self.deck.append(Card(ctype=...))\<close>: a new Card object, its address put on the deck.\<close>

definition deck_list :: "world \<Rightarrow> nat list" where
  "deck_list w = (case deck w of None \<Rightarrow> [] | Some d \<Rightarrow> d)"

definition discard_list :: "world \<Rightarrow> nat list" where
  "discard_list w = (case discard w of None \<Rightarrow> [] | Some d \<Rightarrow> d)"

definition deck_append_new :: "string \<Rightarrow> world \<Rightarrow> world" where
  "deck_append_new ctype w =
     w\<lparr>cheap := (cheap w)(cnext w := Card ctype), cnext := Suc (cnext w),
       deck := Some (deck_list w @ [cnext w])\<rparr>"

text \<open>
  \<open>create_deck\<close>. \<open>range\<close> of a negative number is empty, which is what the
  subtraction on \<open>nat\<close> gives.
\<close>

definition create_deck :: "world \<Rightarrow> outcome" where
  "create_deck w =
     (let n_players = count_active_players w;
          w0 = w\<lparr>deck := Some [], discard := Some []\<rparr>;
          w1 = (if n_players > 8 then deck_append_new ''Cthulhu'' w0 else w0);
          w2 = deck_append_new ''Cthulhu'' w1;
          w3 = (deck_append_new ''Elder Sign'' ^^ n_players) w2;
          w4 = (deck_append_new ''Blank'' ^^ (n_players * 5 - length (deck_list w3))) w3
      in Done w4)"

text \<open>
  \<open>deal_cards\<close>. One pass of the \<open>for\<close> loop pops the last card of the deck for each
  active player in turn; \<open>pop\<close> on the empty deck raises, and \<open>give_card\<close> raises after
  the pop for a player without game data. The \<open>while\<close> loop goes on as long as the
  deck is not empty, for ever when a pass deals nothing.
\<close>

fun deal_pass :: "nat list \<Rightarrow> world \<Rightarrow> outcome" where
  "deal_pass [] w = Done w"
| "deal_pass (p # ps) w =
     (case deck w of
        None \<Rightarrow> Raised AttributeError w
      | Some d \<Rightarrow>
          if d = [] then Raised IndexError w
          else (case give_card p (last d) (w\<lparr>deck := Some (butlast d)\<rparr>) of
                  Raised e w' \<Rightarrow> Raised e w'
                | Done w' \<Rightarrow> deal_pass ps w'))"

partial_function (option) deal_loop :: "world \<Rightarrow> outcome option" where
  "deal_loop w =
     (case deck w of
        None \<Rightarrow> Some (Raised AttributeError w)
      | Some d \<Rightarrow>
          if length d > 0 then
            (case deal_pass (get_active_players w) w of
               Raised e w' \<Rightarrow> Some (Raised e w')
             | Done w' \<Rightarrow> deal_loop w')
          else Some (Done w))"

declare deal_loop.simps [code]

definition deal_cards :: "world \<Rightarrow> outcome option" where
  "deal_cards w =
     (case deck w of
        None \<Rightarrow> Some (Raised AttributeError w)
      | Some d \<Rightarrow>
          (case shuffle d (rnd w) of
             (d', rs) \<Rightarrow> deal_loop (w\<lparr>deck := Some d', rnd := rs\<rparr>)))"

text \<open>\<open>random.choice(self.get_active_players()).toggle_flashlight()\<close>\<close>

definition choose_flashlight :: "world \<Rightarrow> outcome" where
  "choose_flashlight w =
     (if get_active_players w = [] then Raised IndexError w
      else (case draw (length (get_active_players w)) (rnd w) of
              (j, rs) \<Rightarrow> toggle_flashlight (get_active_players w ! j) (w\<lparr>rnd := rs\<rparr>)))"

definition start_game :: "world \<Rightarrow> outcome option" where
  "start_game w =
     (if game_status w \<noteq> ''Unstarted''
      then Some (Raised (GameError ''This game has already been started.'') w)
      else (case make_roles w of
              Inl e \<Rightarrow> Some (Raised e w)
            | Inr (roles, w1) \<Rightarrow>
                (case assign_roles roles 0 (get_active_players w1) w1 of
                   Raised e w2 \<Rightarrow> Some (Raised e w2)
                 | Done w2 \<Rightarrow>
                     (case deal_cards (world_of (create_deck w2)) of
                        None \<Rightarrow> None
                      | Some (Raised e w3) \<Rightarrow> Some (Raised e w3)
                      | Some (Done w3) \<Rightarrow>
                          (case choose_flashlight w3 of
                             Raised e w4 \<Rightarrow> Some (Raised e w4)
                           | Done w4 \<Rightarrow>
                               Some (Done (w4\<lparr>game_status := ''Ongoing'', round_counter := Some 1,
                                              phase := Some ''Claims'', turn := Some 1\<rparr>)))))))"

subsection \<open>Game: turns\<close>

text \<open>
  \<open>check_winner\<close>. The loop goes through the hands of the active players, then the
  discard; a flipped Cthulhu card assigns the winner there and then, the two tests
  after the loop assign it again.
\<close>

definition scan_card :: "(nat \<Rightarrow> card) \<Rightarrow> nat \<Rightarrow> nat \<times> nat \<times> string option \<Rightarrow> nat \<times> nat \<times> string option" where
  "scan_card h c acc =
     (case acc of (cards_revealed, signs_found, win) \<Rightarrow>
        if is_flipped (h c) then
          (if title (h c) = ''Cthulhu'' then (cards_revealed + 1, signs_found, Some ''Cultist'')
           else if title (h c) = ''Elder Sign'' then (cards_revealed + 1, signs_found + 1, win)
           else (cards_revealed + 1, signs_found, win))
        else acc)"

definition has_game_data :: "world \<Rightarrow> nat \<Rightarrow> bool" where
  "has_game_data w p = (game_data (pheap w p) \<noteq> None)"

definition check_winner :: "world \<Rightarrow> outcome" where
  "check_winner w =
     (if \<not> list_all (has_game_data w) (get_active_players w) then Raised AttributeError w
      else (case discard w of
              None \<Rightarrow> Raised AttributeError w
            | Some dis \<Rightarrow>
                (case fold (scan_card (cheap w))
                        (concat (map (hand w) (get_active_players w)) @ dis) (0, 0, winner w) of
                   (cards_revealed, signs_found, win) \<Rightarrow>
                     Done (w\<lparr>winner :=
                       (if signs_found \<ge> count_active_players w then Some ''Investigator''
                        else if cards_revealed \<ge> count_active_players w * 4 then Some ''Cultist''
                        else win)\<rparr>))))"

text \<open>The loop of \<open>new_phase\<close>: \<open>p.game_data.can_claim = True\<close> for each active player.\<close>

fun allow_claims :: "nat list \<Rightarrow> world \<Rightarrow> outcome" where
  "allow_claims [] w = Done w"
| "allow_claims (p # ps) w =
     (case game_data (pheap w p) of
        None \<Rightarrow> Raised AttributeError w
      | Some gd \<Rightarrow> allow_claims ps (set_game_data p (gd\<lparr>can_claim := True\<rparr>) w))"

definition new_phase :: "world \<Rightarrow> outcome" where
  "new_phase w =
     allow_claims (get_active_players w) (w\<lparr>phase := Some ''Investigation'', turn := Some 1\<rparr>)"

text \<open>
  The loops of \<open>new_round\<close>. The inner one appends each card of the hand to the
  discard (flipped) or to the deck (not flipped); the hand itself is emptied only
  after it.
\<close>

fun return_cards :: "nat list \<Rightarrow> world \<Rightarrow> outcome" where
  "return_cards [] w = Done w"
| "return_cards (c # cs) w =
     (if is_flipped (cheap w c) then
        (case discard w of
           None \<Rightarrow> Raised AttributeError w
         | Some dis \<Rightarrow> return_cards cs (w\<lparr>discard := Some (dis @ [c])\<rparr>))
      else
        (case deck w of
           None \<Rightarrow> Raised AttributeError w
         | Some d \<Rightarrow> return_cards cs (w\<lparr>deck := Some (d @ [c])\<rparr>)))"

fun reset_players :: "nat list \<Rightarrow> world \<Rightarrow> outcome" where
  "reset_players [] w = Done w"
| "reset_players (p # ps) w =
     (case game_data (pheap w p) of
        None \<Rightarrow> Raised AttributeError w
      | Some gd \<Rightarrow>
          (case return_cards (cards gd) w of
             Raised e w' \<Rightarrow> Raised e w'
           | Done w' \<Rightarrow>
               reset_players ps
                 (set_game_data p (gd\<lparr>cards := [], can_claim := has_flashlight gd\<rparr>) w')))"

definition new_round :: "world \<Rightarrow> outcome option" where
  "new_round w =
     (case reset_players (get_active_players w) (w\<lparr>phase := Some ''Claims'', turn := Some 1\<rparr>) of
        Raised e w' \<Rightarrow> Some (Raised e w')
      | Done w' \<Rightarrow> deal_cards w')"

definition new_turn :: "world \<Rightarrow> outcome option" where
  "new_turn w =
     (case check_winner w of
        Raised e w1 \<Rightarrow> Some (Raised e w1)
      | Done w1 \<Rightarrow>
          (case turn w1 of
             None \<Rightarrow> Some (Raised AttributeError w1)
           | Some t \<Rightarrow>
               if t + 1 > count_active_players w1 then
                 (case phase w1 of
                    None \<Rightarrow> Some (Raised AttributeError (w1\<lparr>turn := Some (t + 1)\<rparr>))
                  | Some ph \<Rightarrow>
                      if ph = ''Claims'' then Some (new_phase (w1\<lparr>turn := Some (t + 1)\<rparr>))
                      else new_round (w1\<lparr>turn := Some (t + 1)\<rparr>))
               else Some (Done (w1\<lparr>turn := Some (t + 1)\<rparr>))))"

text \<open>
  \<open>Game.set_claim\<close>. The claim is made of new Card objects, \<open>range\<close> of a negative
  number being empty.
\<close>

definition make_claim :: "int \<Rightarrow> int \<Rightarrow> int \<Rightarrow> card list" where
  "make_claim blank elder cthulhu =
     replicate (nat blank) (Card ''Blank'') @ replicate (nat elder) (Card ''Elder Sign'')
       @ replicate (nat cthulhu) (Card ''Cthulhu'')"

definition set_claim :: "nat \<Rightarrow> int \<Rightarrow> int \<Rightarrow> int \<Rightarrow> world \<Rightarrow> outcome option" where
  "set_claim p blank elder cthulhu w =
     (case player_set_claim p (make_claim blank elder cthulhu) w of
        Raised e w1 \<Rightarrow> Some (Raised e w1)
      | Done w1 \<Rightarrow>
          (case phase w1 of
             None \<Rightarrow> Some (Raised AttributeError w1)
           | Some ph \<Rightarrow>
               if ph = ''Claims'' then
                 (case get_next_player w1 p of
                    None \<Rightarrow> None
                  | Some (Inl e) \<Rightarrow> Some (Raised e w1)
                  | Some (Inr q) \<Rightarrow>
                      (case game_data (pheap w1 q) of
                         None \<Rightarrow> Some (Raised AttributeError w1)
                       | Some gd \<Rightarrow> new_turn (set_game_data q (gd\<lparr>can_claim := True\<rparr>) w1)))
               else Some (Done w1)))"

text \<open>
  \<open>investigate\<close>: the user's flashlight is cleared before the target's card is
  revealed.
\<close>

definition investigate :: "nat \<Rightarrow> nat \<Rightarrow> int option \<Rightarrow> world \<Rightarrow> outcome option" where
  "investigate user target pos w =
     (case game_data (pheap w user) of
        None \<Rightarrow> Some (Raised AttributeError w)
      | Some ugd \<Rightarrow>
          if \<not> has_flashlight ugd
          then Some (Raised (GameError ''Must have the flashlight to investigate!'') w)
          else
            (case reveal_card target pos (set_game_data user (ugd\<lparr>has_flashlight := False\<rparr>) w) of
               Raised e w1 \<Rightarrow> Some (Raised e w1)
             | Done w1 \<Rightarrow>
                 (case game_data (pheap w1 target) of
                    None \<Rightarrow> Some (Raised AttributeError w1)
                  | Some tgd \<Rightarrow> new_turn (set_game_data target (tgd\<lparr>has_flashlight := True\<rparr>) w1))))"

definition end_game :: "world \<Rightarrow> outcome" where
  "end_game w = Done (w\<lparr>game_status := ''Ended''\<rparr>)"

subsection \<open>The calls a client makes\<close>

datatype call =
    AddPlayer nat bool
  | RemovePlayer nat
  | StartGame
  | SetClaim nat int int int
  | Investigate nat nat "int option"
  | NewTurn
  | EndGame

fun run :: "call \<Rightarrow> world \<Rightarrow> outcome option" where
  "run (AddPlayer p is_playing) w = Some (add_player p is_playing w)"
| "run (RemovePlayer p) w = Some (remove_player p w)"
| "run StartGame w = start_game w"
| "run (SetClaim p blank elder cthulhu) w = set_claim p blank elder cthulhu w"
| "run (Investigate user target pos) w = investigate user target pos w"
| "run NewTurn w = new_turn w"
| "run EndGame w = Some (end_game w)"

text \<open>A sequence of calls, each on the world the one before left, raise or not.\<close>

fun run_all :: "call list \<Rightarrow> world \<Rightarrow> world option" where
  "run_all [] w = Some w"
| "run_all (c # cs) w = (case run c w of None \<Rightarrow> None | Some out \<Rightarrow> run_all cs (world_of out))"

subsection \<open>What lies on the table\<close>

text \<open>
  The cards \<open>check_winner\<close> goes through, in its order: the hands of the active
  players, then the discard. With the deck in front they are the pool of the game.
\<close>

definition table_cards :: "world \<Rightarrow> nat list" where
  "table_cards w = concat (map (hand w) (get_active_players w)) @ discard_list w"

definition pool :: "world \<Rightarrow> nat list" where
  "pool w = deck_list w @ discard_list w @ concat (map (hand w) (get_active_players w))"

definition face_up :: "world \<Rightarrow> string \<Rightarrow> nat list" where
  "face_up w t = filter (\<lambda>c. is_flipped (cheap w c) \<and> title (cheap w c) = t) (table_cards w)"

definition titles :: "world \<Rightarrow> nat list \<Rightarrow> string list" where
  "titles w cs = map (\<lambda>c. title (cheap w c)) cs"

subsection \<open>Worlds to run the methods on\<close>

text \<open>
  A store whose first cells are the elements of a list and whose other cells hold
  a default: the stores of \<open>Game\<close> are of this form, and stay so under the updates
  of the methods.
\<close>

definition heap_of :: "'a list \<Rightarrow> 'a \<Rightarrow> nat \<Rightarrow> 'a" where
  "heap_of xs d = (\<lambda>i. if i < length xs then xs ! i else d)"

text \<open>
  A role table with the row of a three-player game, and the calls that seat three
  players: the examples run from \<open>Game roles3 rs\<close>, for draws \<open>rs\<close> of the generator.
\<close>

definition roles3 :: "(nat \<times> int \<times> int) list" where
  "roles3 = [(3, 2, 1)]"

definition seat3 :: "call list" where
  "seat3 = [AddPlayer 0 True, AddPlayer 1 True, AddPlayer 2 True]"

text \<open>
  The worlds such a game of three goes through, written out: a seated player by
  role, hand, \<open>can_claim\<close>, the counts of the claim and the flashlight; the 15 cards
  \<open>create_deck\<close> builds for three players, by the addresses of those face-up; and the
  attributes of the game.
\<close>

definition seat :: "string \<Rightarrow> nat list \<Rightarrow> bool \<Rightarrow> (int \<times> int \<times> int) option \<Rightarrow> bool \<Rightarrow> player" where
  "seat r cs cc cl fl =
     \<lparr>status = ''Playing'',
      game_data = Some \<lparr>role = r, cards = cs, can_claim = cc,
        claim = map_option (\<lambda>(b, e, c). make_claim b e c) cl, has_flashlight = fl\<rparr>\<rparr>"

definition deck3 :: "nat list \<Rightarrow> card list" where
  "deck3 ups =
     map (\<lambda>c. \<lparr>title = (if c = 0 then ''Cthulhu'' else if c < 4 then ''Elder Sign'' else ''Blank''),
               is_flipped = (c \<in> set ups)\<rparr>)
       [0, 1, 2, 3, 4, 5, 6, 7, 8, 9, 10, 11, 12, 13, 14]"

definition table3 :: "player list \<Rightarrow> nat list \<Rightarrow> nat list \<Rightarrow> string \<Rightarrow> nat \<Rightarrow> nat list \<Rightarrow> nat list \<Rightarrow> string option \<Rightarrow> world" where
  "table3 ps ups seats ph t d dis win =
     \<lparr>pheap = heap_of ps \<lparr>status = ''Idle'', game_data = None\<rparr>,
      cheap = heap_of (deck3 ups) (Card ''Null''), cnext = 15, rnd = [], role_info = roles3,
      players = seats, game_status = ''Ongoing'', round_counter = Some 1, phase = Some ph,
      turn = Some t, deck = Some d, discard = Some dis, winner = win\<rparr>"

text \<open>Started with the draws all zero; then player 1 is investigated once, twice, five times.\<close>

definition started0 :: world where
  "started0 = table3
     [seat ''Investigator'' [0, 12, 9, 6, 3] True None True,
      seat ''Cultist'' [14, 11, 8, 5, 2] True None False,
      seat ''Investigator'' [13, 10, 7, 4, 1] True None False]
     [] [0, 1, 2] ''Claims'' 1 [] [] None"

definition shown1 :: world where
  "shown1 = table3
     [seat ''Investigator'' [0, 12, 9, 6, 3] True None False,
      seat ''Cultist'' [14, 11, 8, 5, 2] True None True,
      seat ''Investigator'' [13, 10, 7, 4, 1] True None False]
     [14] [0, 1, 2] ''Claims'' 2 [] [] None"

definition shown2 :: world where
  "shown2 = table3
     [seat ''Investigator'' [0, 12, 9, 6, 3] True None False,
      seat ''Cultist'' [14, 11, 8, 5, 2] True None True,
      seat ''Investigator'' [13, 10, 7, 4, 1] True None False]
     [14, 11] [0, 1, 2] ''Claims'' 3 [] [] None"

definition shown5 :: world where
  "shown5 = table3
     [seat ''Investigator'' [0, 12, 9, 6, 3] True None False,
      seat ''Cultist'' [14, 11, 8, 5, 2] True None True,
      seat ''Investigator'' [13, 10, 7, 4, 1] True None False]
     [14, 11, 8, 5, 2] [0, 1, 2] ''Investigation'' 3 [] [] None"

text \<open>\<open>shown5\<close> with the flashlight of player 1 gone.\<close>

definition dark5 :: world where
  "dark5 = table3
     [seat ''Investigator'' [0, 12, 9, 6, 3] True None False,
      seat ''Cultist'' [14, 11, 8, 5, 2] True None False,
      seat ''Investigator'' [13, 10, 7, 4, 1] True None False]
     [14, 11, 8, 5, 2] [0, 1, 2] ''Investigation'' 3 [] [] None"

text \<open>
  Started with the draws 0, 0 (roles), 0, 1, 2, 3 (deck) and zeros: the Cthulhu card
  and the three Elder Signs are the first cards dealt. Then the first cards of
  players 1, 2 and 0 are revealed, then the second card of player 0.
\<close>

definition started1 :: world where
  "started1 = table3
     [seat ''Investigator'' [0, 3, 9, 6, 11] True None True,
      seat ''Cultist'' [1, 14, 8, 5, 12] True None False,
      seat ''Investigator'' [2, 10, 7, 4, 13] True None False]
     [] [0, 1, 2] ''Claims'' 1 [] [] None"

definition cthulhu_up :: world where
  "cthulhu_up = table3
     [seat ''Investigator'' [0, 3, 9, 6, 11] True None True,
      seat ''Cultist'' [1, 14, 8, 5, 12] True None False,
      seat ''Investigator'' [2, 10, 7, 4, 13] True None False]
     [0, 1, 2] [0, 1, 2] ''Investigation'' 1 [] [] (Some ''Cultist'')"

definition both_up :: world where
  "both_up = table3
     [seat ''Investigator'' [0, 3, 9, 6, 11] True None True,
      seat ''Cultist'' [1, 14, 8, 5, 12] True None False,
      seat ''Investigator'' [2, 10, 7, 4, 13] True None False]
     [0, 1, 2, 3] [0, 1, 2] ''Investigation'' 2 [] [] (Some ''Investigator'')"

text \<open>
  The kinds \<open>create_deck\<close> asks \<open>Card\<close> for, in the order it appends them, for a number
  of active players.
\<close>

definition deck_kinds :: "nat \<Rightarrow> string list" where
  "deck_kinds n =
     replicate (if n > 8 then 2 else 1) ''Cthulhu'' @ replicate n ''Elder Sign''
       @ replicate (n * 5 - ((if n > 8 then 2 else 1) + n)) ''Blank''"

text \<open>Two players seated, the game not started.\<close>

definition seated2 :: world where
  "seated2 = (Game roles3 [])
     \<lparr>pheap := heap_of [\<lparr>status = ''Playing'', game_data = None\<rparr>,
                        \<lparr>status = ''Playing'', game_data = None\<rparr>]
                \<lparr>status = ''Idle'', game_data = None\<rparr>,
      players := [0, 1]\<rparr>"

section \<open>Properties\<close>

subsection \<open>Evaluation of the methods on a given world\<close>

lemma heap_of_apply: "heap_of xs d i = (if i < length xs then xs ! i else d)"
  by (simp add: heap_of_def)

lemma heap_of_update: "i < length xs \<Longrightarrow> (heap_of xs d)(i := x) = heap_of (xs[i := x]) d"
  by (auto simp: heap_of_def fun_eq_iff)

lemma heap_of_extend: "i = length xs \<Longrightarrow> (heap_of xs d)(i := x) = heap_of (xs @ [x]) d"
  by (auto simp: heap_of_def fun_eq_iff nth_append)

lemma heap_of_eq_iff:
  "length xs = length ys \<Longrightarrow> (heap_of xs d = heap_of ys d) = (xs = ys)"
proof
  assume l: "length xs = length ys" and h: "heap_of xs d = heap_of ys d"
  have "xs ! i = ys ! i" if "i < length xs" for i
    using fun_cong[OF h, of i] l that by (simp add: heap_of_def)
  with l show "xs = ys" by (simp add: list_eq_iff_nth_eq)
qed simp

lemma Game_heap_of:
  "Game ri rs =
     \<lparr>pheap = heap_of [] \<lparr>status = ''Idle'', game_data = None\<rparr>,
      cheap = heap_of [] (Card ''Null''), cnext = 0, rnd = rs, role_info = ri,
      players = [], game_status = ''Unstarted'', round_counter = None, phase = None,
      turn = None, deck = None, discard = None, winner = None\<rparr>"
  by (simp add: Game_def heap_of_def)

lemma list_update_numeral: "(x # xs)[numeral k := y] = x # xs[pred_numeral k := y]"
  by (simp add: numeral_eq_Suc)

lemma funpow_numeral: "(f ^^ numeral k) x = f ((f ^^ pred_numeral k) x)"
  by (simp add: numeral_eq_Suc)

lemma replicate_numeral: "replicate (numeral k) x = x # replicate (pred_numeral k) x"
  by (simp add: numeral_eq_Suc)

lemmas run_simps =
  heap_of_apply heap_of_update heap_of_extend heap_of_eq_iff Game_heap_of roles3_def seat3_def
  seat_def deck3_def table3_def
  add_player_def remove_player_def start_game_def make_roles_def shuffle_def
  get_active_players_def count_active_players_def is_active_def create_deck_def
  deck_append_new_def deck_list_def discard_list_def deal_cards_def deal_loop.simps
  choose_flashlight_def toggle_flashlight_def set_game_data_def start_playing_def give_card_def
  Card_def card_title_def hand_def holds_flashlight_def
  player_set_claim_def py_index_def reveal_card_def flip_up_def
  get_next_player_def next_player_loop.simps
  has_game_data_def check_winner_def scan_card_def new_phase_def new_round_def new_turn_def
  make_claim_def set_claim_def investigate_def end_game_def
  table_cards_def pool_def face_up_def titles_def
  list_update_numeral funpow_numeral replicate_numeral

lemma started0_run: "run_all (seat3 @ [StartGame]) (Game roles3 []) = Some started0"
  by (simp add: started0_def run_simps)

lemma shown1_run: "investigate 0 1 None started0 = Some (Done shown1)"
  by (simp add: started0_def shown1_def run_simps)

lemma shown2_run: "investigate 1 1 None shown1 = Some (Done shown2)"
  by (simp add: shown1_def shown2_def run_simps)

lemma shown5_run:
  "run_all [Investigate 1 1 None, Investigate 1 1 None, Investigate 1 1 None] shown2 = Some shown5"
  by (simp add: shown2_def shown5_def run_simps)

lemma started1_run:
  "run_all (seat3 @ [StartGame]) (Game roles3 [0, 0, 0, 1, 2, 3]) = Some started1"
  by (simp add: started1_def run_simps)

lemma cthulhu_up_run:
  "run_all [Investigate 0 1 None, Investigate 1 2 None, Investigate 2 0 None] started1
     = Some cthulhu_up"
  by (simp add: started1_def cthulhu_up_def run_simps)

lemma both_up_run: "investigate 0 0 None cthulhu_up = Some (Done both_up)"
  by (simp add: cthulhu_up_def both_up_def run_simps)

subsection \<open>reveal\_card\<close>

lemma first_unflipped_split:
  "\<not> list_all (\<lambda>c. is_flipped (h c)) cs \<Longrightarrow>
   \<exists>pre c post. cs = pre @ c # post \<and> list_all (\<lambda>c. is_flipped (h c)) pre \<and>
      \<not> is_flipped (h c) \<and> first_unflipped h cs = Some c"
proof (induction cs)
  case Nil
  then show ?case by simp
next
  case (Cons x xs)
  show ?case
  proof (cases "is_flipped (h x)")
    case False
    then have "x # xs = [] @ x # xs \<and> list_all (\<lambda>c. is_flipped (h c)) [] \<and>
      \<not> is_flipped (h x) \<and> first_unflipped h (x # xs) = Some x" by simp
    then show ?thesis by blast
  next
    case True
    with Cons.prems have "\<not> list_all (\<lambda>c. is_flipped (h c)) xs" by simp
    from Cons.IH[OF this] obtain pre c post where
      "xs = pre @ c # post" "list_all (\<lambda>c. is_flipped (h c)) pre"
      "\<not> is_flipped (h c)" "first_unflipped h xs = Some c" by blast
    with True have "x # xs = (x # pre) @ c # post \<and> list_all (\<lambda>c. is_flipped (h c)) (x # pre) \<and>
      \<not> is_flipped (h c) \<and> first_unflipped h (x # xs) = Some c" by simp
    then show ?thesis by blast
  qed
qed

text \<open>
  C10. For a player whose hand has a face-down card, \<open>reveal_card\<close> with position 0
  does what it does with no position: it flips the first face-down card in hand
  order (every card before it is face-up), whatever the card at index 0 is.
\<close>

theorem reveal_card_position_zero:
  assumes "\<not> list_all (\<lambda>c. is_flipped (cheap w c)) (hand w p)"
  shows "\<exists>pre c post. hand w p = pre @ c # post \<and>
           list_all (\<lambda>c. is_flipped (cheap w c)) pre \<and> \<not> is_flipped (cheap w c) \<and>
           reveal_card p (Some 0) w = Done (flip_up c w) \<and>
           reveal_card p (Some 0) w = reveal_card p None w \<and>
           is_flipped (cheap (flip_up c w) c)"
proof -
  from assms obtain gd where gd: "game_data (pheap w p) = Some gd" "hand w p = cards gd"
    by (cases "game_data (pheap w p)") (simp_all add: hand_def)
  from first_unflipped_split[OF assms] obtain pre c post where
    s: "hand w p = pre @ c # post" "list_all (\<lambda>c. is_flipped (cheap w c)) pre"
      "\<not> is_flipped (cheap w c)" "first_unflipped (cheap w) (hand w p) = Some c" by blast
  have "reveal_card p (Some 0) w = Done (flip_up c w)"
    using gd s(4) by (simp add: reveal_card_def)
  moreover have "reveal_card p None w = Done (flip_up c w)"
    using gd s(4) by (simp add: reveal_card_def)
  moreover have "is_flipped (cheap (flip_up c w) c)" by (simp add: flip_up_def)
  ultimately show ?thesis using s(1-3) by auto
qed

text \<open>
  The witness: in \<open>shown1\<close> the card at index 0 of player 1's hand is face-up, the
  others are not.
\<close>

theorem reveal_card_position_zero_witness:
  "\<not> list_all (\<lambda>c. is_flipped (cheap shown1 c)) (hand shown1 1) \<and>
   (\<exists>pre c post. hand shown1 1 = pre @ c # post \<and>
      list_all (\<lambda>c. is_flipped (cheap shown1 c)) pre \<and> \<not> is_flipped (cheap shown1 c) \<and>
      reveal_card 1 (Some 0) shown1 = Done (flip_up c shown1))"
proof -
  have h: "\<not> list_all (\<lambda>c. is_flipped (cheap shown1 c)) (hand shown1 1)"
    by (simp add: shown1_def run_simps)
  from reveal_card_position_zero[OF h] show ?thesis using h by blast
qed

text \<open>
  C3. What the positional branch of \<open>reveal_card\<close> does, at position 1 of player 1's
  hand: on the face-down card of \<open>started0\<close> it raises and flips nothing, on the
  face-up card of \<open>shown2\<close> it returns and changes nothing.
\<close>

theorem reveal_card_position_inverted:
  "\<not> is_flipped (cheap started0 (hand started0 1 ! 1)) \<and>
   reveal_card 1 (Some 1) started0 = Raised (GameError ''No card to flip!'') started0 \<and>
   is_flipped (cheap shown2 (hand shown2 1 ! 1)) \<and>
   reveal_card 1 (Some 1) shown2 = Done shown2"
  by (simp add: started0_def shown2_def run_simps)

subsection \<open>investigate\<close>

text \<open>
  C2. In \<open>shown5\<close> player 1 holds the flashlight and has no face-down card left.
  Investigating player 1 raises, and leaves the world without the flashlight.
\<close>

theorem investigate_failure_clears_flashlight:
  "holds_flashlight shown5 1 \<and>
   investigate 1 1 None shown5 = Some (Raised (GameError ''All cards are faceup!'') dark5) \<and>
   \<not> holds_flashlight dark5 1 \<and> dark5 \<noteq> shown5"
proof -
  have a: "holds_flashlight shown5 1" and b: "\<not> holds_flashlight dark5 1"
    by (simp_all add: shown5_def dark5_def run_simps)
  have c: "investigate 1 1 None shown5 = Some (Raised (GameError ''All cards are faceup!'') dark5)"
    by (simp add: shown5_def dark5_def run_simps)
  from a b have "dark5 \<noteq> shown5" by auto
  with a b c show ?thesis by simp
qed

subsection \<open>check\_winner\<close>

lemma fold_scan_card:
  "fold (scan_card h) cs (cr, sf, win) =
     (cr + length (filter (\<lambda>c. is_flipped (h c)) cs),
      sf + length (filter (\<lambda>c. is_flipped (h c) \<and> title (h c) = ''Elder Sign'') cs),
      if list_ex (\<lambda>c. is_flipped (h c) \<and> title (h c) = ''Cthulhu'') cs then Some ''Cultist'' else win)"
  by (induction cs arbitrary: cr sf win) (auto simp: scan_card_def)

lemma check_winner_eq:
  assumes "list_all (has_game_data w) (get_active_players w)" and "discard w \<noteq> None"
  shows "check_winner w = Done (w\<lparr>winner :=
           (if length (face_up w ''Elder Sign'') \<ge> count_active_players w then Some ''Investigator''
            else if length (filter (\<lambda>c. is_flipped (cheap w c)) (table_cards w))
                      \<ge> count_active_players w * 4 then Some ''Cultist''
            else if face_up w ''Cthulhu'' \<noteq> [] then Some ''Cultist'' else winner w)\<rparr>)"
proof -
  from assms(2) obtain dis where dis: "discard w = Some dis" by auto
  have ex: "list_ex P xs = (filter P xs \<noteq> [])" for P and xs :: "nat list"
    by (induction xs) auto
  show ?thesis
    using assms(1) dis
    by (simp add: check_winner_def fold_scan_card face_up_def table_cards_def discard_list_def ex)
qed

text \<open>
  C1, as the code has it. With a face-up Cthulhu card among the hands of the active
  players and the discard, \<open>check_winner\<close> leaves the winner Cultist unless the
  face-up Elder Signs number at least the active players: then the test after the
  loop assigns Investigator over it.
\<close>

theorem check_winner_cthulhu_unless_signs:
  assumes "list_all (has_game_data w) (get_active_players w)" and "discard w \<noteq> None"
    and "face_up w ''Cthulhu'' \<noteq> []"
  shows "check_winner w = Done (w\<lparr>winner :=
           Some (if length (face_up w ''Elder Sign'') \<ge> count_active_players w
                 then ''Investigator'' else ''Cultist'')\<rparr>)"
  using assms(3) by (simp add: check_winner_eq[OF assms(1,2)])

text \<open>The witness: \<open>cthulhu_up\<close>, the Cthulhu card and two Elder Signs face-up.\<close>

theorem check_winner_cthulhu_unless_signs_witness:
  "list_all (has_game_data cthulhu_up) (get_active_players cthulhu_up) \<and>
   discard cthulhu_up \<noteq> None \<and> face_up cthulhu_up ''Cthulhu'' \<noteq> [] \<and>
   check_winner cthulhu_up = Done (cthulhu_up\<lparr>winner := Some ''Cultist''\<rparr>)"
proof -
  have h: "list_all (has_game_data cthulhu_up) (get_active_players cthulhu_up)"
    "discard cthulhu_up \<noteq> None" "face_up cthulhu_up ''Cthulhu'' \<noteq> []"
    by (simp_all add: cthulhu_up_def run_simps)
  have n: "\<not> length (face_up cthulhu_up ''Elder Sign'') \<ge> count_active_players cthulhu_up"
    by (simp add: cthulhu_up_def run_simps)
  from check_winner_cthulhu_unless_signs[OF h] n h show ?thesis by simp
qed

text \<open>
  C1 as stated fails. In \<open>cthulhu_up\<close> the winner is Cultist; player 0 then reveals
  the third Elder Sign, and the evaluation of \<open>both_up\<close>, with the Cthulhu card still
  face-up, makes the winner Investigator.
\<close>

theorem check_winner_precedence_counterexample:
  "face_up both_up ''Cthulhu'' = [0] \<and> face_up both_up ''Elder Sign'' = [3, 1, 2] \<and>
   count_active_players both_up = 3 \<and>
   winner cthulhu_up = Some ''Cultist'' \<and>
   investigate 0 0 None cthulhu_up = Some (Done both_up) \<and>
   check_winner both_up = Done both_up \<and> winner both_up = Some ''Investigator''"
  using both_up_run by (simp add: cthulhu_up_def both_up_def run_simps)

lemma seated2_run: "run_all [AddPlayer 0 True, AddPlayer 1 True] (Game roles3 []) = Some seated2"
  by (simp add: seated2_def run_simps)

subsection \<open>What a field is read from\<close>

lemma frame_is_active [simp]:
  "is_active (w\<lparr>cheap := a1\<rparr>) = is_active w"
  "is_active (w\<lparr>cnext := a2\<rparr>) = is_active w"
  "is_active (w\<lparr>rnd := a3\<rparr>) = is_active w"
  "is_active (w\<lparr>players := a5\<rparr>) = is_active w"
  "is_active (w\<lparr>game_status := a6\<rparr>) = is_active w"
  "is_active (w\<lparr>round_counter := a7\<rparr>) = is_active w"
  "is_active (w\<lparr>phase := a8\<rparr>) = is_active w"
  "is_active (w\<lparr>turn := a9\<rparr>) = is_active w"
  "is_active (w\<lparr>deck := a10\<rparr>) = is_active w"
  "is_active (w\<lparr>discard := a11\<rparr>) = is_active w"
  "is_active (w\<lparr>winner := a12\<rparr>) = is_active w"
  by (rule ext, simp add: is_active_def)+

lemma frame_hand [simp]:
  "hand (w\<lparr>cheap := a1\<rparr>) = hand w"
  "hand (w\<lparr>cnext := a2\<rparr>) = hand w"
  "hand (w\<lparr>rnd := a3\<rparr>) = hand w"
  "hand (w\<lparr>players := a5\<rparr>) = hand w"
  "hand (w\<lparr>game_status := a6\<rparr>) = hand w"
  "hand (w\<lparr>round_counter := a7\<rparr>) = hand w"
  "hand (w\<lparr>phase := a8\<rparr>) = hand w"
  "hand (w\<lparr>turn := a9\<rparr>) = hand w"
  "hand (w\<lparr>deck := a10\<rparr>) = hand w"
  "hand (w\<lparr>discard := a11\<rparr>) = hand w"
  "hand (w\<lparr>winner := a12\<rparr>) = hand w"
  by (rule ext, simp add: hand_def)+

lemma frame_active [simp]:
  "get_active_players (w\<lparr>cheap := a1\<rparr>) = get_active_players w"
  "get_active_players (w\<lparr>cnext := a2\<rparr>) = get_active_players w"
  "get_active_players (w\<lparr>rnd := a3\<rparr>) = get_active_players w"
  "get_active_players (w\<lparr>game_status := a6\<rparr>) = get_active_players w"
  "get_active_players (w\<lparr>round_counter := a7\<rparr>) = get_active_players w"
  "get_active_players (w\<lparr>phase := a8\<rparr>) = get_active_players w"
  "get_active_players (w\<lparr>turn := a9\<rparr>) = get_active_players w"
  "get_active_players (w\<lparr>deck := a10\<rparr>) = get_active_players w"
  "get_active_players (w\<lparr>discard := a11\<rparr>) = get_active_players w"
  "get_active_players (w\<lparr>winner := a12\<rparr>) = get_active_players w"
  by (simp_all add: get_active_players_def)

lemma count_active_length: "count_active_players w = length (get_active_players w)"
  by (simp add: count_active_players_def get_active_players_def)

subsection \<open>create\_deck\<close>

lemma fold_deck_append_new:
  "deck w = Some d \<Longrightarrow>
   fold deck_append_new ts w =
     w\<lparr>cheap := (\<lambda>c. if cnext w \<le> c \<and> c < cnext w + length ts then Card (ts ! (c - cnext w))
                     else cheap w c),
       cnext := cnext w + length ts,
       deck := Some (d @ [cnext w ..< cnext w + length ts])\<rparr>"
proof (induction ts arbitrary: w d)
  case Nil
  have "(\<lambda>c. if cnext w \<le> c \<and> c < cnext w then Card ([] ! (c - cnext w)) else cheap w c) = cheap w"
    by (auto simp: fun_eq_iff)
  with Nil show ?case by simp
next
  case (Cons t ts)
  let ?v = "deck_append_new t w"
  have v: "deck ?v = Some (d @ [cnext w])" "cnext ?v = Suc (cnext w)"
    "cheap ?v = (cheap w)(cnext w := Card t)"
    using Cons.prems by (simp_all add: deck_append_new_def deck_list_def)
  have "[cnext w ..< cnext w + length (t # ts)]
        = cnext w # [Suc (cnext w) ..< cnext w + length (t # ts)]"
    by (rule upt_conv_Cons) simp
  then have l: "(d @ [cnext w]) @ [Suc (cnext w) ..< Suc (cnext w) + length ts]
        = d @ [cnext w ..< cnext w + length (t # ts)]"
    by simp
  have h: "(\<lambda>c. if Suc (cnext w) \<le> c \<and> c < Suc (cnext w) + length ts
                then Card (ts ! (c - Suc (cnext w))) else ((cheap w)(cnext w := Card t)) c)
         = (\<lambda>c. if cnext w \<le> c \<and> c < cnext w + length (t # ts)
                then Card ((t # ts) ! (c - cnext w)) else cheap w c)"
    by (auto simp: fun_eq_iff nth_Cons' Suc_diff_Suc less_Suc_eq_le le_Suc_eq)
  have "fold deck_append_new (t # ts) w = fold deck_append_new ts ?v" by simp
  also have "\<dots> = ?v\<lparr>cheap := (\<lambda>c. if Suc (cnext w) \<le> c \<and> c < Suc (cnext w) + length ts
                then Card (ts ! (c - Suc (cnext w))) else ((cheap w)(cnext w := Card t)) c),
       cnext := Suc (cnext w) + length ts,
       deck := Some ((d @ [cnext w]) @ [Suc (cnext w) ..< Suc (cnext w) + length ts])\<rparr>"
    using Cons.IH[OF v(1)] by (simp only: v)
  also have "\<dots> = w\<lparr>cheap := (\<lambda>c. if cnext w \<le> c \<and> c < cnext w + length (t # ts)
                then Card ((t # ts) ! (c - cnext w)) else cheap w c),
       cnext := cnext w + length (t # ts),
       deck := Some (d @ [cnext w ..< cnext w + length (t # ts)])\<rparr>"
    unfolding h l by (simp add: deck_append_new_def)
  finally show ?case .
qed

lemma create_deck_fold:
  "create_deck w =
     Done (fold deck_append_new (deck_kinds (count_active_players w))
             (w\<lparr>deck := Some [], discard := Some []\<rparr>))"
proof -
  let ?w0 = "w\<lparr>deck := Some [], discard := Some []\<rparr>"
  let ?n = "count_active_players w"
  have len: "length (deck_list (fold deck_append_new ts ?w0)) = length ts" for ts
    by (simp add: fold_deck_append_new[of ?w0 "[]"] deck_list_def)
  have c: "count_active_players ?w0 = ?n"
    by (simp add: count_active_length)
  show ?thesis
  proof (cases "?n > 8")
    case True
    have "length (deck_list ((deck_append_new ''Elder Sign'' ^^ ?n)
        (deck_append_new ''Cthulhu'' (deck_append_new ''Cthulhu'' ?w0)))) = 2 + ?n"
      using len[of "[''Cthulhu'', ''Cthulhu''] @ replicate ?n ''Elder Sign''"] by simp
    with True show ?thesis
      by (simp add: create_deck_def Let_def deck_kinds_def numeral_2_eq_2)
  next
    case False
    have "length (deck_list ((deck_append_new ''Elder Sign'' ^^ ?n)
        (deck_append_new ''Cthulhu'' ?w0))) = 1 + ?n"
      using len[of "[''Cthulhu''] @ replicate ?n ''Elder Sign''"] by simp
    with False show ?thesis
      by (simp add: create_deck_def Let_def deck_kinds_def)
  qed
qed

lemma length_deck_kinds: "length (deck_kinds n) = (if n = 0 then 1 else 5 * n)"
  by (simp add: deck_kinds_def)

lemma create_deck_eq:
  "create_deck w =
     Done (w\<lparr>cheap := (\<lambda>c. if cnext w \<le> c \<and> c < cnext w + length (deck_kinds (count_active_players w))
                          then Card (deck_kinds (count_active_players w) ! (c - cnext w))
                          else cheap w c),
             cnext := cnext w + length (deck_kinds (count_active_players w)),
             deck := Some [cnext w ..< cnext w + length (deck_kinds (count_active_players w))],
             discard := Some []\<rparr>)"
  by (simp add: create_deck_fold fold_deck_append_new[of _ "[]"] cong: if_cong)

lemma card_title_kinds: "t \<in> set (deck_kinds n) \<Longrightarrow> card_title t = t"
  by (auto simp: deck_kinds_def card_title_def split: if_splits)

lemma card_title_kinds_nth:
  "i < length (deck_kinds n) \<Longrightarrow> card_title (deck_kinds n ! i) = deck_kinds n ! i"
  using card_title_kinds[of "deck_kinds n ! i" n] by simp

text \<open>
  C7, as the code has it. \<open>create_deck\<close> tests no range: for every number of active
  players it returns, with an empty discard and a deck of one or two Cthulhu cards
  (two above eight players), one Elder Sign per player and Blanks up to five cards
  per player; that is 5 times the count of cards, and a single card for no player.
\<close>

theorem create_deck_never_fails:
  "\<exists>w'. create_deck w = Done w' \<and> discard w' = Some [] \<and>
      length (deck_list w') = (if count_active_players w = 0 then 1 else 5 * count_active_players w) \<and>
      titles w' (deck_list w') =
        replicate (if count_active_players w > 8 then 2 else 1) ''Cthulhu''
        @ replicate (count_active_players w) ''Elder Sign''
        @ replicate (count_active_players w * 5
             - ((if count_active_players w > 8 then 2 else 1) + count_active_players w)) ''Blank''"
proof -
  let ?ks = "deck_kinds (count_active_players w)"
  let ?w' = "world_of (create_deck w)"
  have t: "titles ?w' (deck_list ?w') = ?ks"
    by (rule nth_equalityI)
       (simp_all add: create_deck_eq deck_list_def titles_def Card_def card_title_kinds_nth)
  have "create_deck w = Done ?w'" by (simp add: create_deck_eq)
  moreover have "discard ?w' = Some []" by (simp add: create_deck_eq)
  moreover have "length (deck_list ?w') = (if count_active_players w = 0 then 1 else 5 * count_active_players w)"
    by (simp add: create_deck_eq deck_list_def length_deck_kinds)
  ultimately show ?thesis using t unfolding deck_kinds_def by blast
qed

text \<open>C7 as stated fails: with two active players \<open>create_deck\<close> returns a deck of ten cards.\<close>

theorem create_deck_range_counterexample:
  "count_active_players seated2 = 2 \<and> is_done (create_deck seated2) \<and>
   deck (world_of (create_deck seated2)) = Some [0, 1, 2, 3, 4, 5, 6, 7, 8, 9] \<and>
   titles (world_of (create_deck seated2)) [0, 1, 2, 3, 4, 5, 6, 7, 8, 9] =
     [''Cthulhu'', ''Elder Sign'', ''Elder Sign'', ''Blank'', ''Blank'', ''Blank'', ''Blank'',
      ''Blank'', ''Blank'', ''Blank'']"
  by (simp add: seated2_def run_simps)

end
